theory Spec2Isabelle
  imports Complex_Main
begin

section \<open>Numbers\<close>

text \<open>
  The simulator computes with JavaScript numbers.  They are modelled here as the real
  numbers: \<open>Math.sqrt\<close>, \<open>Math.cos\<close>, \<open>Math.sin\<close>, \<open>Math.acos\<close> and \<open>Math.PI\<close> are
  \<^const>\<open>sqrt\<close>, \<^const>\<open>cos\<close>, \<^const>\<open>sin\<close>, \<^const>\<open>arccos\<close> and \<^const>\<open>pi\<close>; rounding, \<open>NaN\<close> and the
  infinities are outside the model.  One division of the program has a divisor that is not
  guarded against zero: the one by \<open>sinAngle\<close> in the bend constraint.  It is written here as
  the source writes it; \<open>bendSingular\<close> below says when its divisor is zero, where the
  quotient of the model (\<open>0\<close>) is not the number the program computes.
\<close>

text \<open>
  \<open>v || d\<close> on a number: \<open>0\<close> is the falsy number of the model, every other number is
  returned as it is.
\<close>

definition or_default :: "real \<Rightarrow> real \<Rightarrow> real" where
  "or_default v d = (if v = 0 then d else v)"

section \<open>Vector math (\<open>utils/vector\<close>)\<close>

record Vector3 =
  vx :: real
  vy :: real
  vz :: real

definition Vec3_create :: "real \<Rightarrow> real \<Rightarrow> real \<Rightarrow> Vector3" where
  "Vec3_create a b c = \<lparr>vx = a, vy = b, vz = c\<rparr>"

definition Vec3_add :: "Vector3 \<Rightarrow> Vector3 \<Rightarrow> Vector3" where
  "Vec3_add a b = \<lparr>vx = vx a + vx b, vy = vy a + vy b, vz = vz a + vz b\<rparr>"

definition Vec3_sub :: "Vector3 \<Rightarrow> Vector3 \<Rightarrow> Vector3" where
  "Vec3_sub a b = \<lparr>vx = vx a - vx b, vy = vy a - vy b, vz = vz a - vz b\<rparr>"

definition Vec3_scale :: "Vector3 \<Rightarrow> real \<Rightarrow> Vector3" where
  "Vec3_scale v s = \<lparr>vx = vx v * s, vy = vy v * s, vz = vz v * s\<rparr>"

definition Vec3_dot :: "Vector3 \<Rightarrow> Vector3 \<Rightarrow> real" where
  "Vec3_dot a b = vx a * vx b + vy a * vy b + vz a * vz b"

definition Vec3_length :: "Vector3 \<Rightarrow> real" where
  "Vec3_length v = sqrt (vx v * vx v + vy v * vy v + vz v * vz v)"

definition Vec3_normalize :: "Vector3 \<Rightarrow> Vector3" where
  "Vec3_normalize v =
     (let len = sqrt (vx v * vx v + vy v * vy v + vz v * vz v)
      in if len = 0 then \<lparr>vx = 0, vy = 0, vz = 0\<rparr>
         else \<lparr>vx = vx v / len, vy = vy v / len, vz = vz v / len\<rparr>)"

definition Vec3_distance :: "Vector3 \<Rightarrow> Vector3 \<Rightarrow> real" where
  "Vec3_distance a b =
     (let dx = vx a - vx b; dy = vy a - vy b; dz = vz a - vz b
      in sqrt (dx * dx + dy * dy + dz * dz))"

section \<open>Configuration and state (\<open>types.ts\<close>, class \<open>Stick\<close>)\<close>

text \<open>
  \<open>maxBendAngle\<close> is the one field the simulator compares with \<open>undefined\<close>; \<open>None\<close> is
  that absent value.
\<close>

record ElasticProperties =
  stiffness :: real
  damping :: real
  mass :: real
  stretchFactor :: real
  gripRatio :: real
  maxStretchRatio :: real
  maxBendAngle :: "real option"
  taper :: real

text \<open>The field \<open>length\<close> of the class is \<open>length_s\<close> here.\<close>

record Stick =
  length_s :: real
  props :: ElasticProperties
  handlePos :: Vector3
  handleDir :: Vector3
  tipPos :: Vector3
  oldTipPos :: Vector3

definition reset :: "Stick \<Rightarrow> Stick" where
  "reset s =
     (let activeLength = length_s s * (1 - or_default (gripRatio (props s)) 0);
          tip = Vec3_add (handlePos s) (Vec3_scale (handleDir s) activeLength)
      in s\<lparr>tipPos := tip, oldTipPos := tip\<rparr>)"

definition constructor :: "real \<Rightarrow> ElasticProperties \<Rightarrow> Stick" where
  "constructor len p =
     reset \<lparr>length_s = len, props = p,
            handlePos = Vec3_create 0 0 0, handleDir = Vec3_create 0 1 0,
            tipPos = Vec3_create 0 len 0, oldTipPos = Vec3_create 0 len 0\<rparr>"

definition updateProperties :: "Stick \<Rightarrow> real \<Rightarrow> ElasticProperties \<Rightarrow> Stick" where
  "updateProperties s len p = s\<lparr>length_s := len, props := p\<rparr>"

section \<open>The physics step (\<open>Stick.performPhysicsStep\<close>)\<close>

text \<open>
  The step is written here as its numbered stages, each a function of the position the
  stage before it produced; \<open>performPhysicsStep\<close> composes them in the order of the source.
\<close>

text \<open>1. Verlet integration: the position before any constraint.\<close>

definition verletIntegration :: "real \<Rightarrow> real \<Rightarrow> Stick \<Rightarrow> Vector3" where
  "verletIntegration activeLength dt s =
     (let velocity = Vec3_sub (tipPos s) (oldTipPos s);
          drag = max 0 (1.0 - damping (props s) * dt);
          dampedVelocity = Vec3_scale velocity drag;
          idealTipPos = Vec3_add (handlePos s) (Vec3_scale (handleDir s) activeLength);
          displacement = Vec3_sub idealTipPos (tipPos s);
          taperMultiplier = 1.0 + or_default (taper (props s)) 0 * 0.5;
          effectiveStiffness = stiffness (props s) * taperMultiplier;
          springForce = Vec3_scale displacement effectiveStiffness;
          m = max 0.1 (mass (props s));
          accel = Vec3_scale springForce (1 / m);
          delta = Vec3_add dampedVelocity (Vec3_scale accel (dt * dt))
      in Vec3_add (tipPos s) delta)"

text \<open>3. Length constraint (soft position-based correction).\<close>

definition lengthConstraint :: "real \<Rightarrow> real \<Rightarrow> Stick \<Rightarrow> Vector3 \<Rightarrow> Vector3" where
  "lengthConstraint activeLength dt s nextPos =
     (let toHandle = Vec3_sub nextPos (handlePos s);
          currentLen = Vec3_length toHandle
      in if currentLen > 0.0001 then
           let stiffnessFactor = stretchFactor (props s) * 0.05 * dt;
               alpha = min 1.0 (max 0.0 stiffnessFactor);
               targetLen = activeLength;
               correctionLen = currentLen + (targetLen - currentLen) * alpha
           in Vec3_add (handlePos s) (Vec3_scale (Vec3_normalize toHandle) correctionLen)
         else nextPos)"

text \<open>
  The angle of the bend constraint, from its cosine:
  \<open>Math.acos(Math.max(-1, Math.min(1, cosAngle)))\<close>.
\<close>

definition angleOfCos :: "real \<Rightarrow> real" where
  "angleOfCos cosAngle = arccos (max (- 1) (min 1 cosAngle))"

text \<open>
  4. Hard constraint: maximal bend angle.
\<close>

definition bendConstraint :: "Stick \<Rightarrow> Vector3 \<Rightarrow> Vector3" where
  "bendConstraint s nextPos =
     (let vecToTip = Vec3_sub nextPos (handlePos s);
          tipDist = Vec3_length vecToTip
      in if tipDist > 0.0001 then
           let tipDir = Vec3_scale vecToTip (1 / tipDist);
               cosAngle = Vec3_dot tipDir (handleDir s);
               maxAngleDeg = (case maxBendAngle (props s) of None \<Rightarrow> 180 | Some a \<Rightarrow> a)
           in if maxAngleDeg < 179.9 then
                let maxAngleRad = maxAngleDeg * (pi / 180);
                    minCos = cos maxAngleRad
                in if cosAngle < minCos then
                     let currentAngle = angleOfCos cosAngle
                     in if currentAngle > 0.001 then
                          let tSlerp = maxAngleRad / currentAngle;
                              sinAngle = sin currentAngle;
                              w1 = sin ((1 - tSlerp) * currentAngle) / sinAngle;
                              w2 = sin (tSlerp * currentAngle) / sinAngle;
                              newDir = Vec3_add (Vec3_scale (handleDir s) w1)
                                                (Vec3_scale tipDir w2);
                              tipDir' = Vec3_normalize newDir
                          in Vec3_add (handlePos s) (Vec3_scale tipDir' tipDist)
                        else nextPos
                   else nextPos
              else nextPos
         else nextPos)"

text \<open>5. Hard constraint: maximal stretch length.\<close>

definition stretchConstraint :: "real \<Rightarrow> Stick \<Rightarrow> Vector3 \<Rightarrow> Vector3" where
  "stretchConstraint activeLength s nextPos =
     (let maxRatio = or_default (maxStretchRatio (props s)) 1.5;
          maxAllowedLen = activeLength * maxRatio;
          finalVec = Vec3_sub nextPos (handlePos s);
          finalDist = Vec3_length finalVec
      in if finalDist > maxAllowedLen
         then Vec3_add (handlePos s) (Vec3_scale (Vec3_normalize finalVec) maxAllowedLen)
         else nextPos)"

definition performPhysicsStep :: "real \<Rightarrow> real \<Rightarrow> Stick \<Rightarrow> Stick" where
  "performPhysicsStep activeLength dt s =
     (let tempPos = tipPos s;
          nextPos = lengthConstraint activeLength dt s (verletIntegration activeLength dt s);
          bent = bendConstraint s nextPos
      in s\<lparr>oldTipPos := tempPos, tipPos := stretchConstraint activeLength s bent\<rparr>)"

section \<open>The frame update (\<open>Stick.swing\<close>)\<close>

text \<open>
  The loop \<open>for (let i = 0; i < subSteps; i++)\<close>; the first argument counts the iterations
  that remain.
\<close>

fun subStepLoop :: "nat \<Rightarrow> real \<Rightarrow> real \<Rightarrow> Stick \<Rightarrow> Stick" where
  "subStepLoop 0 activeLength subDt s = s"
| "subStepLoop (Suc n) activeLength subDt s =
     subStepLoop n activeLength subDt (performPhysicsStep activeLength subDt s)"

definition swing :: "Stick \<Rightarrow> Vector3 \<Rightarrow> Vector3 \<Rightarrow> real \<Rightarrow> Stick" where
  "swing s hPos hDir dt =
     (let s1 = s\<lparr>handlePos := hPos, handleDir := Vec3_normalize hDir\<rparr>;
          g = or_default (gripRatio (props s1)) 0;
          activeLength = length_s s1 * (1 - g)
      in if activeLength < 0.1
         then s1\<lparr>tipPos := hPos, oldTipPos := hPos\<rparr>
         else
           let subSteps = (8::nat);
               subDt = dt / real subSteps
           in subStepLoop subSteps activeLength subDt s1)"

section \<open>The curve query (\<open>Stick.queryPNormalize\<close>)\<close>

definition queryPNormalize :: "Stick \<Rightarrow> real \<Rightarrow> Vector3" where
  "queryPNormalize s t =
     (let g = or_default (gripRatio (props s)) 0;
          tp = or_default (taper (props s)) 0
      in if t < g then
           (if g = 0 then handlePos s
            else let distBack = (g - t) * length_s s
                 in Vec3_sub (handlePos s) (Vec3_scale (handleDir s) distBack))
         else
           let activeLength = length_s s * (1 - g)
           in if activeLength \<le> 0.1 then handlePos s
              else
                let segmentT = (t - g) / (1 - g);
                    p0 = handlePos s;
                    p3 = tipPos s;
                    handleWeight = 0.33 + (tp * 0.4);
                    tipWeight = 0.33 - (tp * 0.1);
                    p1 = Vec3_add p0 (Vec3_scale (handleDir s) (activeLength * handleWeight));
                    vecToTip = Vec3_sub p3 p0;
                    dirToHandle = Vec3_normalize (Vec3_scale vecToTip (- 1));
                    p2Dir = Vec3_normalize (Vec3_add dirToHandle (Vec3_scale (handleDir s) 0.5));
                    p2 = Vec3_add p3 (Vec3_scale p2Dir (activeLength * tipWeight));
                    u = 1 - segmentT;
                    tt = segmentT * segmentT;
                    uu = u * u;
                    uuu = uu * u;
                    ttt = tt * segmentT;
                    term0 = Vec3_scale p0 uuu;
                    term1 = Vec3_scale p1 (3 * uu * segmentT);
                    term2 = Vec3_scale p2 (3 * u * tt);
                    term3 = Vec3_scale p3 ttt
                in Vec3_add (Vec3_add term0 term1) (Vec3_add term2 term3))"

text \<open>The configuration the application starts with (\<open>App.tsx\<close>).\<close>

definition defaultProps :: ElasticProperties where
  "defaultProps =
     \<lparr>stiffness = 8, damping = 2.5, mass = 2, stretchFactor = 20, gripRatio = 0,
      maxStretchRatio = 1.5, maxBendAngle = Some 180, taper = 0\<rparr>"

text \<open>
  The tip position \<open>pos\<close> is inside the bend cone of the state's handle pose: the bend
  limit is absent or at least \<open>179.9\<close> degrees, or the cosine of the angle between the
  direction from the handle to \<open>pos\<close> and the handle direction is at least \<open>minCos\<close>.
\<close>

definition withinBendLimit :: "Stick \<Rightarrow> Vector3 \<Rightarrow> bool" where
  "withinBendLimit s pos =
     (case maxBendAngle (props s) of
        None \<Rightarrow> True
      | Some a \<Rightarrow> 179.9 \<le> a
          \<or> cos (a * (pi / 180))
              \<le> Vec3_dot (Vec3_normalize (Vec3_sub pos (handlePos s))) (handleDir s))"

text \<open>
  The bend constraint, given \<open>nextPos\<close>, reaches its division by \<open>sinAngle\<close> with
  \<open>sinAngle = 0\<close>: the guards are those of \<open>bendConstraint\<close>.  \<open>swingSingular\<close> says that
  some step of a \<open>swing\<close> does.
\<close>

definition bendSingular :: "Stick \<Rightarrow> Vector3 \<Rightarrow> bool" where
  "bendSingular s nextPos =
     (let vecToTip = Vec3_sub nextPos (handlePos s);
          tipDist = Vec3_length vecToTip;
          tipDir = Vec3_scale vecToTip (1 / tipDist);
          cosAngle = Vec3_dot tipDir (handleDir s);
          maxAngleDeg = (case maxBendAngle (props s) of None \<Rightarrow> 180 | Some a \<Rightarrow> a);
          currentAngle = angleOfCos cosAngle
      in tipDist > 0.0001 \<and> maxAngleDeg < 179.9 \<and> cosAngle < cos (maxAngleDeg * (pi / 180))
         \<and> currentAngle > 0.001 \<and> sin currentAngle = 0)"

definition stepSingular :: "real \<Rightarrow> real \<Rightarrow> Stick \<Rightarrow> bool" where
  "stepSingular activeLength dt s =
     bendSingular s (lengthConstraint activeLength dt s (verletIntegration activeLength dt s))"

fun loopSingular :: "nat \<Rightarrow> real \<Rightarrow> real \<Rightarrow> Stick \<Rightarrow> bool" where
  "loopSingular 0 activeLength subDt s = False"
| "loopSingular (Suc n) activeLength subDt s =
     (stepSingular activeLength subDt s
      \<or> loopSingular n activeLength subDt (performPhysicsStep activeLength subDt s))"

definition swingSingular :: "Stick \<Rightarrow> Vector3 \<Rightarrow> Vector3 \<Rightarrow> real \<Rightarrow> bool" where
  "swingSingular s hPos hDir dt =
     (let s1 = s\<lparr>handlePos := hPos, handleDir := Vec3_normalize hDir\<rparr>;
          activeLength = length_s s1 * (1 - or_default (gripRatio (props s1)) 0)
      in \<not> activeLength < 0.1 \<and> loopSingular 8 activeLength (dt / 8) s1)"

text \<open>
  A stick held at the origin, pointing along \<open>+y\<close>, with a bend limit of \<open>45\<close> degrees: its
  tip is on the boundary of the cone at distance \<open>1\<close>, and its implicit velocity carries it
  to \<open>(1, 0, 0)\<close>, outside the cone, in one step.  \<open>bendDemoRest\<close> is that stick at rest on
  the boundary.
\<close>

definition bendDemo :: Stick where
  "bendDemo =
     \<lparr>length_s = 1, props = defaultProps\<lparr>maxBendAngle := Some 45\<rparr>,
      handlePos = \<lparr>vx = 0, vy = 0, vz = 0\<rparr>, handleDir = \<lparr>vx = 0, vy = 1, vz = 0\<rparr>,
      tipPos = \<lparr>vx = sqrt 2 / 2, vy = sqrt 2 / 2, vz = 0\<rparr>,
      oldTipPos = \<lparr>vx = sqrt 2 - 1, vy = sqrt 2, vz = 0\<rparr>\<rparr>"

definition bendDemoRest :: Stick where
  "bendDemoRest =
     bendDemo\<lparr>tipPos := \<lparr>vx = sqrt 2 / 2, vy = sqrt 2 / 2, vz = 0\<rparr>,
              oldTipPos := \<lparr>vx = sqrt 2 / 2, vy = sqrt 2 / 2, vz = 0\<rparr>\<rparr>"

section \<open>Facts about the vector operations\<close>

lemma sumsq_nonneg: "0 \<le> a * a + b * b + c * (c::real)"
  by (simp add: add_nonneg_nonneg)

lemma sumsq_zero_iff: "a * a + b * b + c * (c::real) = 0 \<longleftrightarrow> a = 0 \<and> b = 0 \<and> c = 0"
proof
  assume h: "a * a + b * b + c * c = 0"
  have "0 \<le> a * a" "0 \<le> b * b" "0 \<le> c * c" by simp_all
  with h have "a * a = 0" "b * b = 0" "c * c = 0" by linarith+
  then show "a = 0 \<and> b = 0 \<and> c = 0" by simp
qed simp

lemma Vec3_length_nonneg: "0 \<le> Vec3_length v"
  by (simp add: Vec3_length_def sumsq_nonneg)

lemma Vec3_length_zero_iff: "Vec3_length v = 0 \<longleftrightarrow> v = \<lparr>vx = 0, vy = 0, vz = 0\<rparr>"
  by (cases v) (simp add: Vec3_length_def sumsq_zero_iff)

lemma Vec3_length_axis_y: "Vec3_length \<lparr>vx = 0, vy = b, vz = 0\<rparr> = \<bar>b\<bar>"
  by (simp add: Vec3_length_def)

lemma Vec3_normalize_axis_y: "Vec3_normalize \<lparr>vx = 0, vy = b, vz = 0\<rparr> = \<lparr>vx = 0, vy = sgn b, vz = 0\<rparr>"
  by (cases "b = 0") (simp_all add: Vec3_normalize_def Let_def sgn_real_def)

lemma Vec3_distance_length: "Vec3_distance a b = Vec3_length (Vec3_sub a b)"
  by (simp add: Vec3_distance_def Vec3_length_def Vec3_sub_def Let_def)

lemma Vec3_normalize_scale:
  "Vec3_normalize v = (if Vec3_length v = 0 then \<lparr>vx = 0, vy = 0, vz = 0\<rparr>
     else Vec3_scale v (1 / Vec3_length v))"
  by (simp add: Vec3_normalize_def Vec3_length_def Vec3_scale_def Let_def)

lemma Vec3_length_scale: "Vec3_length (Vec3_scale v c) = \<bar>c\<bar> * Vec3_length v"
proof -
  have "vx v * c * (vx v * c) + vy v * c * (vy v * c) + vz v * c * (vz v * c)
      = (c * c) * (vx v * vx v + vy v * vy v + vz v * vz v)"
    by (simp add: algebra_simps)
  then show ?thesis
    by (simp add: Vec3_length_def Vec3_scale_def real_sqrt_mult)
qed

lemma Vec3_length_normalize:
  "Vec3_length v \<noteq> 0 \<Longrightarrow> Vec3_length (Vec3_normalize v) = 1"
  using Vec3_length_nonneg[of v]
  by (simp add: Vec3_normalize_scale Vec3_length_scale)

lemma Vec3_sub_add_cancel: "Vec3_sub (Vec3_add p w) p = w"
  by (cases w) (simp add: Vec3_sub_def Vec3_add_def)

lemma Vec3_add_sub_cancel: "Vec3_add p (Vec3_sub n p) = n"
  by (cases n) (simp add: Vec3_sub_def Vec3_add_def)

lemma Vec3_scale_scale: "Vec3_scale (Vec3_scale v a) b = Vec3_scale v (a * b)"
  by (simp add: Vec3_scale_def algebra_simps)

lemma Vec3_scale_one: "Vec3_scale v 1 = v"
  by (cases v) (simp add: Vec3_scale_def)

lemma Vec3_scale_normalize_length: "Vec3_scale (Vec3_normalize v) (Vec3_length v) = v"
proof (cases "Vec3_length v = 0")
  case True
  then show ?thesis
    by (simp add: Vec3_normalize_scale Vec3_length_zero_iff Vec3_scale_def)
next
  case False
  then show ?thesis
    by (simp add: Vec3_normalize_scale Vec3_scale_scale Vec3_scale_one)
qed

lemma Vec3_normalize_scale_pos:
  assumes "0 < c"
  shows "Vec3_normalize (Vec3_scale v c) = Vec3_normalize v"
proof (cases "Vec3_length v = 0")
  case True
  then show ?thesis
    by (simp add: Vec3_length_zero_iff Vec3_scale_def Vec3_normalize_def)
next
  case False
  with assms show ?thesis
    by (simp add: Vec3_normalize_scale Vec3_length_scale Vec3_scale_scale)
qed

lemma Vec3_normalize_idem: "Vec3_normalize (Vec3_normalize v) = Vec3_normalize v"
proof (cases "Vec3_length v = 0")
  case True
  then show ?thesis
    by (simp add: Vec3_length_zero_iff Vec3_normalize_def)
next
  case False
  then have "Vec3_length (Vec3_normalize v) = 1" by (rule Vec3_length_normalize)
  then show ?thesis
    by (simp add: Vec3_normalize_scale[of "Vec3_normalize v"] Vec3_scale_one)
qed

lemma Vec3_dot_add_left: "Vec3_dot (Vec3_add a b) c = Vec3_dot a c + Vec3_dot b c"
  by (simp add: Vec3_dot_def Vec3_add_def algebra_simps)

lemma Vec3_dot_scale_left: "Vec3_dot (Vec3_scale a k) c = k * Vec3_dot a c"
  by (simp add: Vec3_dot_def Vec3_scale_def algebra_simps)

lemma Vec3_dot_commute: "Vec3_dot a b = Vec3_dot b a"
  by (simp add: Vec3_dot_def mult.commute)

lemma Vec3_dot_self: "Vec3_dot v v = (Vec3_length v)\<^sup>2"
  by (simp add: Vec3_dot_def Vec3_length_def sumsq_nonneg)

lemma Vec3_length_combination:
  "(Vec3_length (Vec3_add (Vec3_scale h w1) (Vec3_scale d w2)))\<^sup>2
     = w1\<^sup>2 * (Vec3_length h)\<^sup>2 + 2 * w1 * w2 * Vec3_dot h d + w2\<^sup>2 * (Vec3_length d)\<^sup>2"
proof -
  have "(Vec3_length (Vec3_add (Vec3_scale h w1) (Vec3_scale d w2)))\<^sup>2
      = Vec3_dot (Vec3_add (Vec3_scale h w1) (Vec3_scale d w2))
                 (Vec3_add (Vec3_scale h w1) (Vec3_scale d w2))"
    by (simp add: Vec3_dot_self)
  also have "\<dots> = w1 * w1 * Vec3_dot h h + 2 * w1 * w2 * Vec3_dot h d + w2 * w2 * Vec3_dot d d"
    by (simp add: Vec3_dot_def Vec3_add_def Vec3_scale_def algebra_simps)
  finally show ?thesis
    by (simp add: Vec3_dot_self power2_eq_square)
qed

section \<open>Facts about the physics step\<close>

text \<open>
  A step changes the two tip positions only; so does the loop.
\<close>

lemma performPhysicsStep_frame:
  "props (performPhysicsStep activeLength dt s) = props s"
  "handlePos (performPhysicsStep activeLength dt s) = handlePos s"
  "handleDir (performPhysicsStep activeLength dt s) = handleDir s"
  "length_s (performPhysicsStep activeLength dt s) = length_s s"
  by (simp_all add: performPhysicsStep_def Let_def)

lemma subStepLoop_frame:
  "props (subStepLoop n activeLength dt s) = props s
   \<and> handlePos (subStepLoop n activeLength dt s) = handlePos s
   \<and> handleDir (subStepLoop n activeLength dt s) = handleDir s
   \<and> length_s (subStepLoop n activeLength dt s) = length_s s"
  by (induction n arbitrary: s) (simp_all add: performPhysicsStep_frame)

text \<open>
  The state after the loop is the state after its last step.
\<close>

lemma subStepLoop_last:
  "subStepLoop (Suc n) activeLength dt s
     = performPhysicsStep activeLength dt (subStepLoop n activeLength dt s)"
  by (induction n arbitrary: s) simp_all

lemma loopSingular_last:
  "\<not> loopSingular (Suc n) activeLength dt s
     \<Longrightarrow> \<not> stepSingular activeLength dt (subStepLoop n activeLength dt s)"
  by (induction n arbitrary: s) simp_all

lemma swing_handleDir: "handleDir (swing s hPos hDir dt) = Vec3_normalize hDir"
  by (simp add: swing_def Let_def subStepLoop_frame)

text \<open>
  The stretch constraint: its bound, and the direction it keeps.
\<close>

lemma stretchConstraint_bound:
  assumes "0 \<le> activeLength * or_default (maxStretchRatio (props s)) 1.5"
  shows "Vec3_length (Vec3_sub (stretchConstraint activeLength s nextPos) (handlePos s))
         \<le> activeLength * or_default (maxStretchRatio (props s)) 1.5"
proof -
  let ?M = "activeLength * or_default (maxStretchRatio (props s)) 1.5"
  let ?v = "Vec3_sub nextPos (handlePos s)"
  show ?thesis
  proof (cases "Vec3_length ?v > ?M")
    case True
    with assms have "Vec3_length ?v \<noteq> 0" by linarith
    then have "Vec3_length (Vec3_scale (Vec3_normalize ?v) ?M) = ?M"
      using assms by (simp add: Vec3_length_scale Vec3_length_normalize)
    with True show ?thesis
      by (simp add: stretchConstraint_def Let_def Vec3_sub_add_cancel)
  next
    case False
    then show ?thesis
      by (simp add: stretchConstraint_def Let_def)
  qed
qed

lemma performPhysicsStep_bound:
  assumes "0 \<le> activeLength * or_default (maxStretchRatio (props s)) 1.5"
  shows "Vec3_distance (tipPos (performPhysicsStep activeLength dt s)) (handlePos s)
         \<le> activeLength * or_default (maxStretchRatio (props s)) 1.5"
  using stretchConstraint_bound[OF assms]
  by (simp add: performPhysicsStep_def Let_def Vec3_distance_length)

lemma stretchConstraint_direction:
  assumes "0 < activeLength * or_default (maxStretchRatio (props s)) 1.5"
  shows "Vec3_normalize (Vec3_sub (stretchConstraint activeLength s nextPos) (handlePos s))
           = Vec3_normalize (Vec3_sub nextPos (handlePos s))"
    and "0.0001 < Vec3_length (Vec3_sub (stretchConstraint activeLength s nextPos) (handlePos s))
           \<Longrightarrow> 0.0001 < Vec3_length (Vec3_sub nextPos (handlePos s))"
proof -
  let ?M = "activeLength * or_default (maxStretchRatio (props s)) 1.5"
  let ?v = "Vec3_sub nextPos (handlePos s)"
  have clamp: "Vec3_sub (stretchConstraint activeLength s nextPos) (handlePos s)
      = (if Vec3_length ?v > ?M then Vec3_scale (Vec3_normalize ?v) ?M else ?v)"
    by (simp add: stretchConstraint_def Let_def Vec3_sub_add_cancel)
  show "Vec3_normalize (Vec3_sub (stretchConstraint activeLength s nextPos) (handlePos s))
           = Vec3_normalize ?v"
    using assms by (simp add: clamp Vec3_normalize_scale_pos Vec3_normalize_idem)
  assume far: "0.0001 < Vec3_length (Vec3_sub (stretchConstraint activeLength s nextPos) (handlePos s))"
  show "0.0001 < Vec3_length ?v"
  proof (cases "Vec3_length ?v > ?M")
    case True
    with assms have "Vec3_length ?v \<noteq> 0" by linarith
    then have "Vec3_length (Vec3_scale (Vec3_normalize ?v) ?M) = ?M"
      using assms by (simp add: Vec3_length_scale Vec3_length_normalize)
    with far True have "0.0001 < ?M" by (simp add: clamp)
    then show ?thesis using True by (rule less_trans)
  next
    case False
    with far show ?thesis by (simp add: clamp)
  qed
qed

text \<open>
  A step of duration zero: no acceleration, no damping, no length correction.
\<close>

lemma verletIntegration_zero_dt:
  "verletIntegration activeLength 0 s
     = Vec3_add (tipPos s) (Vec3_sub (tipPos s) (oldTipPos s))"
  by (simp add: verletIntegration_def Let_def Vec3_add_def Vec3_scale_def Vec3_sub_def)

lemma lengthConstraint_zero_dt: "lengthConstraint activeLength 0 s nextPos = nextPos"
  by (simp add: lengthConstraint_def Let_def Vec3_scale_normalize_length Vec3_add_sub_cancel)

lemma bendConstraint_within:
  assumes "withinBendLimit s pos"
  shows "bendConstraint s pos = pos"
proof (cases "maxBendAngle (props s)")
  case None
  then show ?thesis by (simp add: bendConstraint_def Let_def)
next
  case (Some a)
  show ?thesis
  proof (cases "Vec3_length (Vec3_sub pos (handlePos s)) > 0.0001")
    case False
    then show ?thesis by (simp add: bendConstraint_def Let_def)
  next
    case True
    then have nz: "Vec3_length (Vec3_sub pos (handlePos s)) \<noteq> 0" by auto
    from assms Some have "179.9 \<le> a \<or> cos (a * (pi / 180))
              \<le> Vec3_dot (Vec3_scale (Vec3_sub pos (handlePos s))
                     (1 / Vec3_length (Vec3_sub pos (handlePos s)))) (handleDir s)"
      using nz by (simp add: withinBendLimit_def Vec3_normalize_scale)
    with Some show ?thesis
      by (auto simp add: bendConstraint_def Let_def)
  qed
qed

lemma performPhysicsStep_zero_dt_fixed:
  assumes "oldTipPos s = tipPos s"
    and "withinBendLimit s (tipPos s)"
    and "Vec3_distance (tipPos s) (handlePos s)
           \<le> activeLength * or_default (maxStretchRatio (props s)) 1.5"
  shows "performPhysicsStep activeLength 0 s = s"
proof -
  have v: "verletIntegration activeLength 0 s = tipPos s"
    using assms(1) by (cases "tipPos s")
      (simp add: verletIntegration_zero_dt Vec3_add_def Vec3_sub_def)
  have st: "stretchConstraint activeLength s (tipPos s) = tipPos s"
    using assms(3) by (simp add: stretchConstraint_def Let_def Vec3_distance_length)
  show ?thesis
    using assms(1) by (simp add: performPhysicsStep_def v lengthConstraint_zero_dt
        bendConstraint_within[OF assms(2)] st)
qed

lemma subStepLoop_zero_dt_fixed:
  assumes "oldTipPos s = tipPos s"
    and "withinBendLimit s (tipPos s)"
    and "Vec3_distance (tipPos s) (handlePos s)
           \<le> activeLength * or_default (maxStretchRatio (props s)) 1.5"
  shows "subStepLoop n activeLength 0 s = s"
  by (induction n) (simp_all add: performPhysicsStep_zero_dt_fixed[OF assms])

text \<open>
  The weights of the spherical interpolation from \<open>handleDir\<close> towards \<open>tipDir\<close>, at
  angle \<open>\<theta>\<close> from each other, by the angle \<open>\<phi>\<close>: the result is a unit vector at angle \<open>\<phi>\<close>
  from \<open>handleDir\<close>, provided \<open>sin \<theta>\<close> is not zero.
\<close>

lemma slerp_weights:
  fixes \<theta> \<phi> :: real
  assumes "sin \<theta> \<noteq> 0"
  defines "w1 \<equiv> sin (\<theta> - \<phi>) / sin \<theta>" and "w2 \<equiv> sin \<phi> / sin \<theta>"
  shows "w1 + w2 * cos \<theta> = cos \<phi>"
    and "w1\<^sup>2 + 2 * w1 * w2 * cos \<theta> + w2\<^sup>2 = 1"
proof -
  let ?S = "sin \<theta>" and ?C = "cos \<theta>" and ?s = "sin \<phi>" and ?k = "cos \<phi>"
  have d: "sin (\<theta> - \<phi>) = ?S * ?k - ?C * ?s" by (simp add: sin_diff)
  show "w1 + w2 * cos \<theta> = cos \<phi>"
    using assms(1) by (simp add: w1_def w2_def d field_simps)
  have S2: "?S\<^sup>2 \<noteq> 0" using assms(1) by simp
  have pyth: "?C\<^sup>2 = 1 - ?S\<^sup>2" "?k\<^sup>2 = 1 - ?s\<^sup>2"
    using sin_cos_squared_add[of \<theta>] sin_cos_squared_add[of \<phi>] by linarith+
  have num: "(?S * ?k - ?C * ?s)\<^sup>2 + 2 * (?S * ?k - ?C * ?s) * ?s * ?C + ?s\<^sup>2 = ?S\<^sup>2"
  proof -
    have "(?S * ?k - ?C * ?s)\<^sup>2 + 2 * (?S * ?k - ?C * ?s) * ?s * ?C + ?s\<^sup>2
        = ?S\<^sup>2 * ?k\<^sup>2 - ?C\<^sup>2 * ?s\<^sup>2 + ?s\<^sup>2"
      by (simp add: power2_eq_square algebra_simps)
    also have "\<dots> = ?S\<^sup>2"
      by (simp add: pyth algebra_simps)
    finally show ?thesis .
  qed
  have w: "w1 * ?S = ?S * ?k - ?C * ?s" "w2 * ?S = ?s"
    using assms(1) by (simp_all add: w1_def w2_def d)
  have "(w1\<^sup>2 + 2 * w1 * w2 * ?C + w2\<^sup>2) * ?S\<^sup>2
      = (w1 * ?S)\<^sup>2 + 2 * (w1 * ?S) * (w2 * ?S) * ?C + (w2 * ?S)\<^sup>2"
    by (simp add: power2_eq_square algebra_simps)
  also have "\<dots> = ?S\<^sup>2"
    unfolding w using num by simp
  finally show "w1\<^sup>2 + 2 * w1 * w2 * cos \<theta> + w2\<^sup>2 = 1"
    using S2 by simp
qed

lemma angleOfCos_gt:
  assumes "0 \<le> \<phi>" "\<phi> < pi" "c < cos \<phi>"
  shows "\<phi> < angleOfCos c"
proof -
  have "cos pi < cos \<phi>" using assms(1,2) by (intro cos_monotone_0_pi) simp_all
  then have lo: "- 1 < cos \<phi>" by simp
  have hi: "cos \<phi> \<le> 1" by simp
  let ?c = "max (- 1) (min 1 c)"
  have c: "?c < cos \<phi>" "\<bar>?c\<bar> \<le> 1" using assms(3) lo hi by auto
  have "arccos (cos \<phi>) < arccos ?c"
    using c by (subst arccos_less_mono) (simp_all add: abs_le_iff)
  then show ?thesis
    using assms(1,2) by (simp add: angleOfCos_def arccos_cos)
qed

lemma angleOfCos_le:
  assumes "0 \<le> \<phi>" "\<phi> \<le> pi" "cos \<phi> \<le> c"
  shows "angleOfCos c \<le> \<phi>"
proof -
  let ?c = "max (- 1) (min 1 c)"
  have "cos \<phi> \<le> min 1 c" using assms(3) by simp
  then have c: "cos \<phi> \<le> ?c" "\<bar>?c\<bar> \<le> 1"
    by (simp_all add: le_max_iff_disj abs_le_iff)
  have "arccos ?c \<le> arccos (cos \<phi>)"
    using c by (subst arccos_le_mono) (simp_all add: abs_le_iff)
  then show ?thesis
    using assms(1,2) by (simp add: angleOfCos_def arccos_cos)
qed

lemma bendConstraint_cone:
  assumes unit: "Vec3_length (handleDir s) = 1"
    and a: "maxBendAngle (props s) = Some a" "a < 179.9" "0.001 \<le> a * (pi / 180)"
    and regular: "\<not> bendSingular s nextPos"
    and far: "0.0001 < Vec3_length (Vec3_sub (bendConstraint s nextPos) (handlePos s))"
  shows "cos (a * (pi / 180))
          \<le> Vec3_dot (Vec3_normalize (Vec3_sub (bendConstraint s nextPos) (handlePos s)))
               (handleDir s)"
proof -
  define bent where "bent = bendConstraint s nextPos"
  note far = far [folded bent_def]
  have "cos (a * (pi / 180))
          \<le> Vec3_dot (Vec3_normalize (Vec3_sub bent (handlePos s))) (handleDir s)"
  proof -
  let ?P = "handlePos s" and ?h = "handleDir s"
  let ?v = "Vec3_sub nextPos ?P"
  let ?D = "Vec3_length ?v"
  let ?d = "Vec3_scale ?v (1 / ?D)"
  let ?c = "Vec3_dot ?d ?h"
  let ?\<phi> = "a * (pi / 180)"
  have phi: "0 \<le> ?\<phi>" "?\<phi> < pi"
  proof -
    have "(0::real) \<le> 0.001" by simp
    then show "0 \<le> ?\<phi>" using a(3) by (rule order_trans)
    have "a * (pi / 180) < 179.9 * (pi / 180)"
      using a(2) pi_gt_zero by (intro mult_strict_right_mono) simp_all
    also have "\<dots> \<le> pi" using pi_gt_zero by simp
    finally show "?\<phi> < pi" .
  qed
  show ?thesis
  proof (cases "?D > 0.0001")
    case False
    then have "bent = nextPos" by (simp add: bent_def bendConstraint_def Let_def)
    with far False show ?thesis by simp
  next
    case far0: True
    then have D: "0 < ?D" "?D \<noteq> 0" by auto
    then have dn: "Vec3_normalize ?v = ?d" by (simp add: Vec3_normalize_scale)
    show ?thesis
    proof (cases "?c < cos ?\<phi>")
      case False
      with a far0 have "bent = nextPos"
        by (simp add: bent_def bendConstraint_def Let_def)
      with False dn show ?thesis by simp
    next
      case out: True
      let ?\<theta> = "angleOfCos ?c"
      let ?w1 = "sin ((1 - ?\<phi> / ?\<theta>) * ?\<theta>) / sin ?\<theta>"
      let ?w2 = "sin (?\<phi> / ?\<theta> * ?\<theta>) / sin ?\<theta>"
      let ?n = "Vec3_add (Vec3_scale ?h ?w1) (Vec3_scale ?d ?w2)"
      have th: "?\<phi> < ?\<theta>" using phi out by (intro angleOfCos_gt) simp_all
      with a(3) have big: "?\<theta> > 0.001" by (rule le_less_trans)
      then have th0: "?\<theta> \<noteq> 0" by auto
      have bent: "bent = Vec3_add ?P (Vec3_scale (Vec3_normalize ?n) ?D)"
        using far0 a(1,2) out big by (simp add: bent_def bendConstraint_def Let_def)
      have sn: "sin ?\<theta> \<noteq> 0"
        using regular far0 a(1,2) out big by (simp add: bendSingular_def Let_def)
      define d where "d = ?d"
      define \<theta> where "\<theta> = angleOfCos (Vec3_dot d ?h)"
      define w1 where "w1 = sin (\<theta> - ?\<phi>) / sin \<theta>"
      define w2 where "w2 = sin ?\<phi> / sin \<theta>"
      define n where "n = Vec3_add (Vec3_scale ?h w1) (Vec3_scale d w2)"
      have sn': "sin \<theta> \<noteq> 0"
        unfolding \<theta>_def d_def by (rule sn)
      have th0': "\<theta> \<noteq> 0"
        unfolding \<theta>_def d_def by (rule th0)
      have out': "Vec3_dot d ?h < cos ?\<phi>"
        unfolding d_def by (rule out)
      have args: "(1 - ?\<phi> / \<theta>) * \<theta> = \<theta> - ?\<phi>" "?\<phi> / \<theta> * \<theta> = ?\<phi>"
        using th0' by (simp_all add: field_simps)
      have "?n = n"
        by (simp only: n_def w1_def w2_def \<theta>_def [symmetric] d_def [symmetric] args)
      with bent have bent': "bent = Vec3_add ?P (Vec3_scale (Vec3_normalize n) ?D)"
        by simp
      have c1: "Vec3_dot d ?h \<le> 1" using out' cos_le_one[of ?\<phi>] by linarith
      have cm: "- 1 < Vec3_dot d ?h"
      proof (rule ccontr)
        assume "\<not> - 1 < Vec3_dot d ?h"
        then have "max (- 1) (min 1 (Vec3_dot d ?h)) = - 1" by auto
        then have "\<theta> = pi" by (simp add: \<theta>_def angleOfCos_def)
        with sn' show False by simp
      qed
      have "max (- 1) (min 1 (Vec3_dot d ?h)) = Vec3_dot d ?h" using c1 cm by auto
      then have ct: "cos \<theta> = Vec3_dot d ?h"
        using c1 cm by (simp add: \<theta>_def angleOfCos_def cos_arccos)
      have w: "w1 + w2 * cos \<theta> = cos ?\<phi>"
        "w1\<^sup>2 + 2 * w1 * w2 * cos \<theta> + w2\<^sup>2 = 1"
        unfolding w1_def w2_def using slerp_weights[OF sn', of ?\<phi>] by simp_all
      have dl: "Vec3_length d = 1"
        using D by (simp add: d_def Vec3_length_scale)
      have hd: "Vec3_dot ?h d = cos \<theta>"
        using ct by (simp add: Vec3_dot_commute)
      have "(Vec3_length n)\<^sup>2 = 1"
        using w(2) by (simp add: n_def Vec3_length_combination unit dl hd)
      then have nl: "Vec3_length n = 1"
        using Vec3_length_nonneg[of n] by (simp add: power2_eq_1_iff)
      then have nn: "Vec3_normalize n = n"
        by (simp add: Vec3_normalize_scale Vec3_scale_one)
      have "Vec3_normalize (Vec3_sub bent ?P) = n"
        unfolding bent' nn using D(1) nn
        by (simp add: Vec3_sub_add_cancel Vec3_normalize_scale_pos)
      moreover have "Vec3_dot n ?h = w1 * (Vec3_length ?h)\<^sup>2 + w2 * Vec3_dot d ?h"
        by (simp add: n_def Vec3_dot_add_left Vec3_dot_scale_left Vec3_dot_self)
      then have "Vec3_dot n ?h = cos ?\<phi>"
        using w(1) by (simp add: unit ct)
      ultimately show ?thesis by simp
    qed
  qed
qed
  then show ?thesis by (simp only: bent_def)
qed

lemma performPhysicsStep_cone:
  assumes unit: "Vec3_length (handleDir s) = 1"
    and a: "maxBendAngle (props s) = Some a" "a < 179.9" "0.001 \<le> a * (pi / 180)"
    and pos: "0 < activeLength * or_default (maxStretchRatio (props s)) 1.5"
    and regular: "\<not> stepSingular activeLength dt s"
    and far: "0.0001 < Vec3_length (Vec3_sub (tipPos (performPhysicsStep activeLength dt s))
                                              (handlePos s))"
  shows "cos (a * (pi / 180))
          \<le> Vec3_dot (Vec3_normalize (Vec3_sub (tipPos (performPhysicsStep activeLength dt s))
                                                (handlePos s))) (handleDir s)"
proof -
  let ?n = "lengthConstraint activeLength dt s (verletIntegration activeLength dt s)"
  have tip: "tipPos (performPhysicsStep activeLength dt s)
      = stretchConstraint activeLength s (bendConstraint s ?n)"
    by (simp add: performPhysicsStep_def Let_def)
  from regular have reg: "\<not> bendSingular s ?n" by (simp add: stepSingular_def)
  from far have "0.0001 < Vec3_length (Vec3_sub (bendConstraint s ?n) (handlePos s))"
    unfolding tip by (rule stretchConstraint_direction(2)[OF pos])
  from bendConstraint_cone[OF unit a reg this]
  show ?thesis
    by (simp add: tip stretchConstraint_direction(1)[OF pos])
qed

text \<open>
  The division by \<open>sinAngle = 0\<close> is reached only when the bend limit is on and the direction
  from the handle to the position is exactly opposite to the handle direction (cosine \<open>-1\<close> or
  less).  With the bend limit absent or at least \<open>179.9\<close> degrees, as in the starting
  configuration, no \<open>swing\<close> reaches it.
\<close>

lemma bendSingular_opposite:
  assumes "bendSingular s nextPos"
  shows "\<exists>a. maxBendAngle (props s) = Some a \<and> a < 179.9
           \<and> Vec3_dot (Vec3_normalize (Vec3_sub nextPos (handlePos s))) (handleDir s) \<le> - 1"
proof -
  let ?v = "Vec3_sub nextPos (handlePos s)"
  let ?c = "Vec3_dot (Vec3_scale ?v (1 / Vec3_length ?v)) (handleDir s)"
  from assms have far: "Vec3_length ?v > 0.0001"
    by (simp add: bendSingular_def Let_def)
  then have "Vec3_length ?v \<noteq> 0" by auto
  then have dn: "Vec3_normalize ?v = Vec3_scale ?v (1 / Vec3_length ?v)"
    by (simp add: Vec3_normalize_scale)
  from assms obtain a where a: "maxBendAngle (props s) = Some a" "a < 179.9"
    by (cases "maxBendAngle (props s)") (auto simp add: bendSingular_def Let_def)
  from assms have big: "angleOfCos ?c > 0.001" and sn: "sin (angleOfCos ?c) = 0"
    by (simp_all add: bendSingular_def Let_def)
  let ?x = "max (- 1) (min 1 ?c)"
  have x: "- 1 \<le> ?x" "?x \<le> 1" by auto
  have "(0::real) < 0.001" by simp
  then have pos: "0 < arccos ?x" using big unfolding angleOfCos_def by (rule less_trans)
  have "arccos ?x = pi"
  proof (rule ccontr)
    assume "arccos ?x \<noteq> pi"
    with arccos_ubound[OF x] have "arccos ?x < pi" by simp
    with pos have "0 < sin (arccos ?x)" by (rule sin_gt_zero)
    with sn show False by (simp add: angleOfCos_def)
  qed
  then have "cos (arccos ?x) = - 1" by simp
  with x have "?x = - 1" by (simp add: cos_arccos)
  then have "?c \<le> - 1" by (auto simp add: max_def min_def split: if_splits)
  with a dn show ?thesis by simp
qed

lemma loopSingular_unlimited:
  assumes "\<And>a. maxBendAngle (props s) = Some a \<Longrightarrow> 179.9 \<le> a"
  shows "\<not> loopSingular n activeLength dt s"
  using assms
proof (induction n arbitrary: s)
  case 0
  then show ?case by simp
next
  case (Suc n)
  have "\<not> bendSingular s pos" for pos
    using bendSingular_opposite[of s pos] Suc.prems by fastforce
  then have "\<not> stepSingular activeLength dt s" by (simp add: stepSingular_def)
  moreover have "\<not> loopSingular n activeLength dt (performPhysicsStep activeLength dt s)"
    using Suc.prems by (intro Suc.IH) (simp add: performPhysicsStep_frame)
  ultimately show ?case by simp
qed

lemma swingSingular_unlimited:
  assumes "\<And>a. maxBendAngle (props s) = Some a \<Longrightarrow> 179.9 \<le> a"
  shows "\<not> swingSingular s hPos hDir dt"
proof -
  have "\<not> loopSingular n al d (s\<lparr>handlePos := hPos, handleDir := Vec3_normalize hDir\<rparr>)"
    for n al d
    using assms by (intro loopSingular_unlimited) simp
  then show ?thesis by (simp add: swingSingular_def Let_def)
qed

text \<open>
  The stretch clamp reads \<open>maxStretchRatio\<close> through \<open>|| 1.5\<close> only; no other stage reads
  it.
\<close>

lemma performPhysicsStep_ratio_default:
  assumes "or_default r 1.5 = or_default (maxStretchRatio (props s)) 1.5"
  shows "performPhysicsStep activeLength dt (s\<lparr>props := (props s)\<lparr>maxStretchRatio := r\<rparr>\<rparr>)
     = (performPhysicsStep activeLength dt s)\<lparr>props := (props s)\<lparr>maxStretchRatio := r\<rparr>\<rparr>"
proof -
  let ?s2 = "s\<lparr>props := (props s)\<lparr>maxStretchRatio := r\<rparr>\<rparr>"
  have v: "verletIntegration activeLength dt ?s2 = verletIntegration activeLength dt s"
    by (simp add: verletIntegration_def Let_def)
  have l: "lengthConstraint activeLength dt ?s2 n = lengthConstraint activeLength dt s n" for n
    by (simp add: lengthConstraint_def Let_def)
  have b: "bendConstraint ?s2 n = bendConstraint s n" for n
    by (simp add: bendConstraint_def Let_def)
  have st: "stretchConstraint activeLength ?s2 n = stretchConstraint activeLength s n" for n
    using assms by (simp add: stretchConstraint_def Let_def)
  show ?thesis
    by (simp add: performPhysicsStep_def v l b st)
qed

lemma subStepLoop_ratio_default:
  assumes "or_default r 1.5 = or_default (maxStretchRatio (props s)) 1.5"
  shows "subStepLoop n activeLength dt (s\<lparr>props := (props s)\<lparr>maxStretchRatio := r\<rparr>\<rparr>)
     = (subStepLoop n activeLength dt s)\<lparr>props := (props s)\<lparr>maxStretchRatio := r\<rparr>\<rparr>"
  using assms
proof (induction n arbitrary: s)
  case 0
  then show ?case by simp
next
  case (Suc n)
  let ?s1 = "performPhysicsStep activeLength dt s"
  have p: "props ?s1 = props s" by (simp add: performPhysicsStep_frame)
  with Suc.prems have "or_default r 1.5 = or_default (maxStretchRatio (props ?s1)) 1.5"
    by simp
  from Suc.IH[OF this] p show ?case
    by (simp add: performPhysicsStep_ratio_default[OF Suc.prems])
qed

section \<open>Evaluated runs\<close>

text \<open>
  Runs of \<open>swing\<close> on a stick of length \<open>1\<close> whose tip, handle and handle direction stay on
  the \<open>y\<close> axis, with \<open>dt = 0\<close>.  In the first the handle is moved to \<open>(0, -9, 0)\<close>: the
  stretch clamp pulls the tip to distance \<open>1.5\<close>, the implicit velocity this creates carries
  it through the handle, and it comes to rest at \<open>(0, -10.5, 0)\<close>.  In the second the handle is
  moved to \<open>0.00005\<close> above the tip.
\<close>

lemmas eval_defs = swing_def Let_def performPhysicsStep_def verletIntegration_def
  lengthConstraint_def bendConstraint_def stretchConstraint_def
  Vec3_add_def Vec3_sub_def Vec3_scale_def Vec3_create_def Vec3_length_axis_y Vec3_normalize_axis_y
  constructor_def reset_def defaultProps_def or_default_def

lemma moved_handle_eval:
  "swing (constructor 1 defaultProps) \<lparr>vx = 0, vy = -9, vz = 0\<rparr> \<lparr>vx = 0, vy = 1, vz = 0\<rparr> 0
   = \<lparr>length_s = 1, props = defaultProps,
      handlePos = \<lparr>vx = 0, vy = -9, vz = 0\<rparr>, handleDir = \<lparr>vx = 0, vy = 1, vz = 0\<rparr>,
      tipPos = \<lparr>vx = 0, vy = -10.5, vz = 0\<rparr>,
      oldTipPos = \<lparr>vx = 0, vy = -10.5, vz = 0\<rparr>\<rparr>"
  by (simp add: eval_defs eval_nat_numeral)

lemma near_handle_eval:
  "swing (constructor 1 (defaultProps\<lparr>maxBendAngle := Some 90\<rparr>))
      \<lparr>vx = 0, vy = 1.00005, vz = 0\<rparr> \<lparr>vx = 0, vy = 1, vz = 0\<rparr> 0
   = \<lparr>length_s = 1, props = defaultProps\<lparr>maxBendAngle := Some 90\<rparr>,
       handlePos = \<lparr>vx = 0, vy = 1.00005, vz = 0\<rparr>, handleDir = \<lparr>vx = 0, vy = 1, vz = 0\<rparr>,
       tipPos = \<lparr>vx = 0, vy = 1, vz = 0\<rparr>, oldTipPos = \<lparr>vx = 0, vy = 1, vz = 0\<rparr>\<rparr>"
  by (simp add: eval_defs eval_nat_numeral)

text \<open>
  The handle direction turned to exactly opposite the resting tip, with a bend limit of
  \<open>135\<close> degrees: the first step divides by \<open>sin pi\<close>.
\<close>

lemma opposite_singular:
  "swingSingular (constructor 1 (defaultProps\<lparr>maxBendAngle := Some 135\<rparr>))
     \<lparr>vx = 0, vy = 0, vz = 0\<rparr> \<lparr>vx = 0, vy = - 1, vz = 0\<rparr> 0"
proof -
  have "cos pi < cos (135 * (pi / 180))"
    using pi_gt_zero by (intro cos_monotone_0_pi) simp_all
  then have c: "- 1 < cos (135 * (pi / 180))" by simp
  have p: "1 / 10 ^ 3 < pi" using pi_ge_two by simp
  let ?s1 = "\<lparr>length_s = 1, props = defaultProps\<lparr>maxBendAngle := Some 135\<rparr>,
      handlePos = \<lparr>vx = 0, vy = 0, vz = 0\<rparr>, handleDir = \<lparr>vx = 0, vy = - 1, vz = 0\<rparr>,
      tipPos = \<lparr>vx = 0, vy = 1, vz = 0\<rparr>, oldTipPos = \<lparr>vx = 0, vy = 1, vz = 0\<rparr>\<rparr>"
  have v: "verletIntegration 1 0 ?s1 = \<lparr>vx = 0, vy = 1, vz = 0\<rparr>"
    by (simp add: verletIntegration_zero_dt Vec3_add_def Vec3_sub_def)
  have "bendSingular ?s1 \<lparr>vx = 0, vy = 1, vz = 0\<rparr>"
    using c p by (simp add: bendSingular_def Let_def defaultProps_def Vec3_sub_def
      Vec3_length_def Vec3_scale_def Vec3_dot_def angleOfCos_def)
  then have "stepSingular 1 0 ?s1"
    by (simp add: stepSingular_def v lengthConstraint_zero_dt)
  then show ?thesis
    by (simp add: swingSingular_def Let_def eval_nat_numeral constructor_def reset_def
        defaultProps_def or_default_def Vec3_create_def Vec3_add_def Vec3_scale_def
        Vec3_normalize_axis_y)
qed

text \<open>
  The run of \<open>bendDemo\<close>: the first step takes the tip to \<open>(1, 0, 0)\<close>, at \<open>90\<close> degrees from
  the handle direction, and the bend constraint turns it back by the interpolation onto the
  cone, where it rests for the remaining steps.
\<close>

lemma bendDemo_verlet: "verletIntegration 1 0 bendDemo = \<lparr>vx = 1, vy = 0, vz = 0\<rparr>"
  by (simp add: verletIntegration_zero_dt bendDemo_def Vec3_add_def Vec3_sub_def)

lemma bendDemo_bend:
  "bendConstraint bendDemo \<lparr>vx = 1, vy = 0, vz = 0\<rparr>
     = \<lparr>vx = sqrt 2 / 2, vy = sqrt 2 / 2, vz = 0\<rparr>"
proof -
  have pi1: "1 / 10 ^ 3 < pi / 2" using pi_ge_two by simp
  have c: "(0::real) < sqrt 2 / 2" by simp
  have n: "Vec3_normalize \<lparr>vx = sqrt 2 / 2, vy = sqrt 2 / 2, vz = 0\<rparr>
      = \<lparr>vx = sqrt 2 / 2, vy = sqrt 2 / 2, vz = 0\<rparr>"
    by (simp add: Vec3_normalize_def Let_def)
  show ?thesis
    using pi1 c
    by (simp add: bendConstraint_def Let_def bendDemo_def defaultProps_def Vec3_sub_def
        Vec3_length_def Vec3_scale_def Vec3_dot_def Vec3_add_def angleOfCos_def
        cos_45 sin_45 n)
qed

lemma bendDemo_regular: "\<not> bendSingular bendDemo \<lparr>vx = 1, vy = 0, vz = 0\<rparr>"
  by (simp add: bendSingular_def Let_def bendDemo_def Vec3_sub_def
      Vec3_length_def Vec3_scale_def Vec3_dot_def angleOfCos_def)

lemma bendDemo_step: "performPhysicsStep 1 0 bendDemo = bendDemoRest"
proof -
  have "stretchConstraint 1 bendDemo \<lparr>vx = sqrt 2 / 2, vy = sqrt 2 / 2, vz = 0\<rparr>
      = \<lparr>vx = sqrt 2 / 2, vy = sqrt 2 / 2, vz = 0\<rparr>"
    by (simp add: stretchConstraint_def Let_def bendDemo_def defaultProps_def or_default_def
        Vec3_sub_def Vec3_length_def)
  then show ?thesis
    by (simp add: performPhysicsStep_def Let_def bendDemo_verlet lengthConstraint_zero_dt
        bendDemo_bend bendDemoRest_def) (simp add: bendDemo_def)
qed

lemma bendDemoRest_within: "withinBendLimit bendDemoRest (tipPos bendDemoRest)"
  by (simp add: withinBendLimit_def bendDemoRest_def bendDemo_def defaultProps_def
      Vec3_sub_def Vec3_normalize_def Vec3_dot_def Let_def cos_45)

lemma bendDemoRest_fixed: "performPhysicsStep 1 0 bendDemoRest = bendDemoRest"
  using bendDemoRest_within
  by (rule performPhysicsStep_zero_dt_fixed [rotated])
     (simp_all add: bendDemoRest_def bendDemo_def defaultProps_def or_default_def
        Vec3_distance_def)

lemma bendDemoRest_regular: "\<not> stepSingular 1 0 bendDemoRest"
proof -
  have "verletIntegration 1 0 bendDemoRest = tipPos bendDemoRest"
    by (simp add: verletIntegration_zero_dt bendDemoRest_def Vec3_add_def Vec3_sub_def)
  moreover have "\<not> bendSingular bendDemoRest (tipPos bendDemoRest)"
    by (simp add: bendSingular_def bendDemoRest_def bendDemo_def defaultProps_def
      Vec3_sub_def Vec3_length_def Vec3_scale_def Vec3_dot_def Let_def cos_45)
  ultimately show ?thesis
    by (simp add: stepSingular_def lengthConstraint_zero_dt)
qed

lemma bendDemo_swing:
  "swing bendDemo \<lparr>vx = 0, vy = 0, vz = 0\<rparr> \<lparr>vx = 0, vy = 2, vz = 0\<rparr> 0 = bendDemoRest"
  "\<not> swingSingular bendDemo \<lparr>vx = 0, vy = 0, vz = 0\<rparr> \<lparr>vx = 0, vy = 2, vz = 0\<rparr> 0"
proof -
  have s1: "bendDemo\<lparr>handlePos := \<lparr>vx = 0, vy = 0, vz = 0\<rparr>,
                     handleDir := Vec3_normalize \<lparr>vx = 0, vy = 2, vz = 0\<rparr>\<rparr> = bendDemo"
    by (simp add: bendDemo_def Vec3_normalize_axis_y)
  have al: "length_s bendDemo * (1 - or_default (gripRatio (props bendDemo)) 0) = 1"
    by (simp add: bendDemo_def defaultProps_def or_default_def)
  have stay: "subStepLoop n 1 0 bendDemoRest = bendDemoRest" for n
    by (induction n) (simp_all add: bendDemoRest_fixed)
  show "swing bendDemo \<lparr>vx = 0, vy = 0, vz = 0\<rparr> \<lparr>vx = 0, vy = 2, vz = 0\<rparr> 0 = bendDemoRest"
    by (simp add: swing_def Let_def s1 al eval_nat_numeral bendDemo_step stay)
  have "\<not> stepSingular 1 0 bendDemo"
    by (simp add: stepSingular_def bendDemo_verlet lengthConstraint_zero_dt bendDemo_regular)
  then show "\<not> swingSingular bendDemo \<lparr>vx = 0, vy = 0, vz = 0\<rparr> \<lparr>vx = 0, vy = 2, vz = 0\<rparr> 0"
    by (simp add: swingSingular_def Let_def s1 al eval_nat_numeral bendDemo_step
        bendDemoRest_fixed bendDemoRest_regular)
qed

lemma sqrt_25: "sqrt 25 = 5"
  using real_sqrt_abs [of 5] by simp

section \<open>Vector normalisation\<close>

text \<open>
  C8.  \<open>Vec3.normalize\<close> returns the zero vector for the zero vector.  For every other
  vector the length it divides by is positive, so the division is never by zero, and the
  result is the vector divided componentwise by its Euclidean length.
\<close>

theorem normalize_policy:
  "Vec3_normalize \<lparr>vx = 0, vy = 0, vz = 0\<rparr> = \<lparr>vx = 0, vy = 0, vz = 0\<rparr>
   \<and> (v \<noteq> \<lparr>vx = 0, vy = 0, vz = 0\<rparr> \<longrightarrow>
        0 < Vec3_length v
        \<and> Vec3_normalize v =
            \<lparr>vx = vx v / Vec3_length v, vy = vy v / Vec3_length v, vz = vz v / Vec3_length v\<rparr>)"
proof -
  have "Vec3_normalize w = (if Vec3_length w = 0 then \<lparr>vx = 0, vy = 0, vz = 0\<rparr>
      else \<lparr>vx = vx w / Vec3_length w, vy = vy w / Vec3_length w, vz = vz w / Vec3_length w\<rparr>)"
    for w by (simp add: Vec3_normalize_def Vec3_length_def Let_def)
  moreover have "v \<noteq> \<lparr>vx = 0, vy = 0, vz = 0\<rparr> \<Longrightarrow> 0 < Vec3_length v"
    using Vec3_length_nonneg[of v] Vec3_length_zero_iff[of v] by linarith
  moreover have "Vec3_length \<lparr>vx = 0, vy = 0, vz = 0\<rparr> = 0"
    by (simp add: Vec3_length_def)
  ultimately show ?thesis by simp
qed

text \<open>
  The vector \<open>(0, 2, 0)\<close> is normalised to \<open>(0, 1, 0)\<close>.
\<close>

theorem normalize_policy_witness:
  "\<lparr>vx = 0, vy = 2, vz = 0\<rparr> \<noteq> \<lparr>vx = 0, vy = 0, vz = 0\<rparr>
   \<and> Vec3_normalize \<lparr>vx = 0, vy = 2, vz = 0\<rparr> = \<lparr>vx = 0, vy = 1, vz = 0\<rparr>"
  using normalize_policy [of "\<lparr>vx = 0, vy = 2, vz = 0\<rparr>"]
  by (simp add: Vec3_length_axis_y)

section \<open>Construction and reset\<close>

text \<open>
  C9.  A stick constructed with length \<open>len\<close> and properties \<open>p\<close> has its handle at the
  origin pointing along \<open>+y\<close>; the constructor ends with \<open>reset\<close>, so the tip is at
  \<open>(0, len * (1 - gripRatio), 0)\<close>, not at the \<open>(0, len, 0)\<close> assigned first, and the previous
  tip position equals the tip position.
\<close>

theorem constructor_state:
  "constructor len p =
     \<lparr>length_s = len, props = p,
      handlePos = \<lparr>vx = 0, vy = 0, vz = 0\<rparr>, handleDir = \<lparr>vx = 0, vy = 1, vz = 0\<rparr>,
      tipPos = \<lparr>vx = 0, vy = len * (1 - gripRatio p), vz = 0\<rparr>,
      oldTipPos = \<lparr>vx = 0, vy = len * (1 - gripRatio p), vz = 0\<rparr>\<rparr>"
  by (simp add: constructor_def reset_def Let_def Vec3_create_def Vec3_add_def Vec3_scale_def
      or_default_def)

text \<open>
  C5.  \<open>reset\<close> is idempotent: a second \<open>reset\<close> with no \<open>swing\<close> in between changes
  nothing.  Right after a \<open>reset\<close> the implicit velocity \<open>tipPos - oldTipPos\<close> is the zero
  vector, and both positions are \<open>handlePos + handleDir * activeLength\<close>.
\<close>

theorem reset_idempotent:
  "reset (reset s) = reset s
   \<and> Vec3_sub (tipPos (reset s)) (oldTipPos (reset s)) = \<lparr>vx = 0, vy = 0, vz = 0\<rparr>
   \<and> oldTipPos (reset s) = tipPos (reset s)
   \<and> tipPos (reset s) =
       Vec3_add (handlePos s)
         (Vec3_scale (handleDir s) (length_s s * (1 - gripRatio (props s))))"
  by (simp add: reset_def Let_def Vec3_sub_def or_default_def)

section \<open>The degenerate rod\<close>

text \<open>
  C4.  When the active length \<open>length * (1 - gripRatio)\<close> is below \<open>0.1\<close>, \<open>swing\<close> stores the
  handle pose, puts the tip and the previous tip exactly on the supplied handle position and
  runs no physics step: nothing else of the state changes.  The stick of length \<open>1\<close> with
  \<open>gripRatio = 0.95\<close> is such a rod.
\<close>

theorem swing_degenerate:
  assumes "length_s s * (1 - gripRatio (props s)) < 0.1"
  shows "swing s hPos hDir dt =
    s\<lparr>handlePos := hPos, handleDir := Vec3_normalize hDir, tipPos := hPos, oldTipPos := hPos\<rparr>"
  using assms by (simp add: swing_def Let_def or_default_def)

text \<open>
  The stick of length \<open>1\<close> with \<open>gripRatio = 0.95\<close>, swung to the handle position
  \<open>(3, 4, 5)\<close>.
\<close>

theorem swing_degenerate_witness:
  "length_s (constructor 1 (defaultProps\<lparr>gripRatio := 0.95\<rparr>))
     * (1 - gripRatio (props (constructor 1 (defaultProps\<lparr>gripRatio := 0.95\<rparr>)))) < 0.1
   \<and> tipPos (swing (constructor 1 (defaultProps\<lparr>gripRatio := 0.95\<rparr>))
           \<lparr>vx = 3, vy = 4, vz = 5\<rparr> \<lparr>vx = 0, vy = 0, vz = 2\<rparr> (1 / 60))
       = \<lparr>vx = 3, vy = 4, vz = 5\<rparr>"
  using swing_degenerate [where s = "constructor 1 (defaultProps\<lparr>gripRatio := 0.95\<rparr>)"
      and hPos = "\<lparr>vx = 3, vy = 4, vz = 5\<rparr>" and hDir = "\<lparr>vx = 0, vy = 0, vz = 2\<rparr>"
      and dt = "1 / 60"]
  by (simp add: constructor_def reset_def defaultProps_def Let_def)

section \<open>The handle direction\<close>

text \<open>
  C7, as the claim states it, fails for the zero direction: \<open>Vec3.normalize\<close> maps it to the
  zero vector, which \<open>swing\<close> stores; its length is \<open>0\<close>.
\<close>

theorem handleDir_zero_direction:
  "Vec3_length (handleDir (swing (constructor 1 defaultProps)
      \<lparr>vx = 0, vy = 0, vz = 0\<rparr> \<lparr>vx = 0, vy = 0, vz = 0\<rparr> (1 / 60))) = 0"
  by (simp add: swing_handleDir Vec3_normalize_axis_y Vec3_length_axis_y)

text \<open>
  C7, amended.  The handle direction of a constructed stick has length \<open>1\<close>, and after every
  \<open>swing\<close> with a direction other than the zero vector (of any length) the stored handle
  direction has length \<open>1\<close>.
\<close>

theorem handleDir_unit:
  "Vec3_length (handleDir (constructor len p)) = 1
   \<and> (hDir \<noteq> \<lparr>vx = 0, vy = 0, vz = 0\<rparr>
        \<longrightarrow> Vec3_length (handleDir (swing s hPos hDir dt)) = 1)"
  by (simp add: constructor_def reset_def Let_def Vec3_create_def Vec3_length_axis_y
      swing_handleDir Vec3_length_normalize Vec3_length_zero_iff)

text \<open>
  The direction \<open>(3, 0, 4)\<close>, of length \<open>5\<close>, is stored as \<open>(0.6, 0, 0.8)\<close>.
\<close>

theorem handleDir_unit_witness:
  "\<lparr>vx = 3, vy = 0, vz = 4\<rparr> \<noteq> \<lparr>vx = 0, vy = 0, vz = 0\<rparr>
   \<and> handleDir (swing (constructor 1 defaultProps)
        \<lparr>vx = 1, vy = 2, vz = 3\<rparr> \<lparr>vx = 3, vy = 0, vz = 4\<rparr> (1 / 60))
       = \<lparr>vx = 0.6, vy = 0, vz = 0.8\<rparr>
   \<and> Vec3_length (handleDir (swing (constructor 1 defaultProps)
        \<lparr>vx = 1, vy = 2, vz = 3\<rparr> \<lparr>vx = 3, vy = 0, vz = 4\<rparr> (1 / 60))) = 1"
  using handleDir_unit [where hDir = "\<lparr>vx = 3, vy = 0, vz = 4\<rparr>"
      and s = "constructor 1 defaultProps" and hPos = "\<lparr>vx = 1, vy = 2, vz = 3\<rparr>"
      and dt = "1 / 60"]
  by (simp add: swing_handleDir Vec3_normalize_def Let_def sqrt_25)

section \<open>The stretch limit\<close>

text \<open>
  C1.  Take a configuration with \<open>maxStretchRatio \<ge> 1\<close> and an active length
  \<open>length * (1 - gripRatio)\<close> that is not negative.  After every \<open>swing\<close>, with any handle
  pose and any \<open>dt\<close>, from any state, the distance from the tip to the handle position is at
  most \<open>activeLength * maxStretchRatio\<close>.  The stretch clamp is the last stage of every step
  and bounds whatever position the stages before it produce.
\<close>

theorem swing_max_stretch:
  assumes ratio: "1 \<le> maxStretchRatio (props s)"
    and len: "0 \<le> length_s s * (1 - gripRatio (props s))"
  shows "Vec3_distance (tipPos (swing s hPos hDir dt)) (handlePos (swing s hPos hDir dt))
         \<le> length_s (swing s hPos hDir dt) * (1 - gripRatio (props (swing s hPos hDir dt)))
             * maxStretchRatio (props (swing s hPos hDir dt))"
proof (cases "length_s s * (1 - gripRatio (props s)) < 0.1")
  case True
  then have "swing s hPos hDir dt = s\<lparr>handlePos := hPos, handleDir := Vec3_normalize hDir,
            tipPos := hPos, oldTipPos := hPos\<rparr>"
    by (simp add: swing_def Let_def or_default_def)
  then have "Vec3_distance (tipPos (swing s hPos hDir dt)) (handlePos (swing s hPos hDir dt)) = 0"
    "length_s (swing s hPos hDir dt) = length_s s" "props (swing s hPos hDir dt) = props s"
    by (simp_all add: Vec3_distance_def)
  with ratio len show ?thesis by simp
next
  case False
  let ?s1 = "s\<lparr>handlePos := hPos, handleDir := Vec3_normalize hDir\<rparr>"
  let ?al = "length_s s * (1 - gripRatio (props s))"
  let ?s2 = "subStepLoop 7 ?al (dt / 8) ?s1"
  from False have "swing s hPos hDir dt = subStepLoop (Suc 7) ?al (dt / 8) ?s1"
    by (simp add: swing_def Let_def or_default_def)
  then have sw: "swing s hPos hDir dt = performPhysicsStep ?al (dt / 8) ?s2"
    by (simp only: subStepLoop_last)
  have fr: "props ?s2 = props s" "length_s ?s2 = length_s s"
    using subStepLoop_frame[of 7 ?al "dt / 8" ?s1] by simp_all
  from ratio have od: "or_default (maxStretchRatio (props s)) 1.5 = maxStretchRatio (props s)"
    by (simp add: or_default_def)
  have "0 \<le> ?al * or_default (maxStretchRatio (props ?s2)) 1.5"
    using ratio len od by (simp add: fr)
  from performPhysicsStep_bound[OF this, of "dt / 8"] show ?thesis
    using od by (simp add: sw performPhysicsStep_frame fr)
qed

text \<open>
  The run with the handle moved to \<open>(0, -9, 0)\<close>: the tip ends at distance \<open>1.5\<close>, the
  bound itself.
\<close>

theorem swing_max_stretch_witness:
  "1 \<le> maxStretchRatio (props (constructor 1 defaultProps))
   \<and> 0 \<le> length_s (constructor 1 defaultProps)
            * (1 - gripRatio (props (constructor 1 defaultProps)))
   \<and> swing (constructor 1 defaultProps) \<lparr>vx = 0, vy = -9, vz = 0\<rparr> \<lparr>vx = 0, vy = 1, vz = 0\<rparr> 0
       = \<lparr>length_s = 1, props = defaultProps,
           handlePos = \<lparr>vx = 0, vy = -9, vz = 0\<rparr>, handleDir = \<lparr>vx = 0, vy = 1, vz = 0\<rparr>,
           tipPos = \<lparr>vx = 0, vy = -10.5, vz = 0\<rparr>,
           oldTipPos = \<lparr>vx = 0, vy = -10.5, vz = 0\<rparr>\<rparr>
   \<and> Vec3_distance \<lparr>vx = 0, vy = -10.5, vz = 0\<rparr> \<lparr>vx = 0, vy = -9, vz = 0\<rparr> \<le> 1 * (1 - 0) * 1.5"
  using swing_max_stretch [where s = "constructor 1 defaultProps"
      and hPos = "\<lparr>vx = 0, vy = -9, vz = 0\<rparr>" and hDir = "\<lparr>vx = 0, vy = 1, vz = 0\<rparr>" and dt = 0]
    moved_handle_eval
  by (simp add: constructor_def reset_def defaultProps_def Let_def)

text \<open>
  C10.  With \<open>maxStretchRatio = 0\<close> the stretch clamp of every step clamps the distance to
  \<open>activeLength * 1.5\<close>, not to \<open>0\<close>; and a \<open>swing\<close> of that configuration does to the
  state exactly what it does with \<open>maxStretchRatio = 1.5\<close>.
\<close>

theorem swing_zero_ratio_default:
  assumes "maxStretchRatio (props s) = 0"
  shows "stretchConstraint activeLength s nextPos =
           (if Vec3_length (Vec3_sub nextPos (handlePos s)) > activeLength * 1.5
            then Vec3_add (handlePos s)
                   (Vec3_scale (Vec3_normalize (Vec3_sub nextPos (handlePos s)))
                      (activeLength * 1.5))
            else nextPos)
       \<and> swing (s\<lparr>props := (props s)\<lparr>maxStretchRatio := 1.5\<rparr>\<rparr>) hPos hDir dt
           = (swing s hPos hDir dt)\<lparr>props := (props s)\<lparr>maxStretchRatio := 1.5\<rparr>\<rparr>"
proof -
  let ?s1 = "s\<lparr>handlePos := hPos, handleDir := Vec3_normalize hDir\<rparr>"
  have od: "or_default 1.5 1.5 = or_default (maxStretchRatio (props ?s1)) 1.5"
    using assms by (simp add: or_default_def)
  have eq: "s\<lparr>props := (props s)\<lparr>maxStretchRatio := 1.5\<rparr>, handlePos := hPos,
                handleDir := Vec3_normalize hDir\<rparr>
            = ?s1\<lparr>props := (props ?s1)\<lparr>maxStretchRatio := 1.5\<rparr>\<rparr>"
    by simp
  have "subStepLoop n al d (s\<lparr>props := (props s)\<lparr>maxStretchRatio := 1.5\<rparr>, handlePos := hPos,
                handleDir := Vec3_normalize hDir\<rparr>)
     = (subStepLoop n al d ?s1)\<lparr>props := (props s)\<lparr>maxStretchRatio := 1.5\<rparr>\<rparr>" for n al d
    unfolding eq using subStepLoop_ratio_default[OF od] by simp
  then have "swing (s\<lparr>props := (props s)\<lparr>maxStretchRatio := 1.5\<rparr>\<rparr>) hPos hDir dt
           = (swing s hPos hDir dt)\<lparr>props := (props s)\<lparr>maxStretchRatio := 1.5\<rparr>\<rparr>"
    by (simp add: swing_def Let_def)
  moreover have "stretchConstraint activeLength s nextPos =
           (if Vec3_length (Vec3_sub nextPos (handlePos s)) > activeLength * 1.5
            then Vec3_add (handlePos s)
                   (Vec3_scale (Vec3_normalize (Vec3_sub nextPos (handlePos s)))
                      (activeLength * 1.5))
            else nextPos)"
    using assms by (simp add: stretchConstraint_def Let_def or_default_def)
  ultimately show ?thesis by simp
qed

text \<open>
  With \<open>maxStretchRatio = 0\<close> and the handle moved to \<open>(0, -9, 0)\<close> the tip ends at
  distance \<open>1.5\<close> from the handle, not on it.
\<close>

theorem swing_zero_ratio_default_witness:
  "maxStretchRatio (props (constructor 1 (defaultProps\<lparr>maxStretchRatio := 0\<rparr>))) = 0
   \<and> tipPos (swing (constructor 1 (defaultProps\<lparr>maxStretchRatio := 0\<rparr>))
           \<lparr>vx = 0, vy = -9, vz = 0\<rparr> \<lparr>vx = 0, vy = 1, vz = 0\<rparr> 0)
       = \<lparr>vx = 0, vy = -10.5, vz = 0\<rparr>"
proof -
  let ?s = "constructor 1 (defaultProps\<lparr>maxStretchRatio := 0\<rparr>)"
  have c: "?s\<lparr>props := (props ?s)\<lparr>maxStretchRatio := 1.5\<rparr>\<rparr> = constructor 1 defaultProps"
    by (simp add: constructor_def reset_def defaultProps_def Let_def)
  have z: "maxStretchRatio (props ?s) = 0"
    by (simp add: constructor_def reset_def Let_def)
  from swing_zero_ratio_default [OF z, of 1 "\<lparr>vx = 0, vy = 0, vz = 0\<rparr>"
      "\<lparr>vx = 0, vy = -9, vz = 0\<rparr>" "\<lparr>vx = 0, vy = 1, vz = 0\<rparr>" 0]
  have "(swing ?s \<lparr>vx = 0, vy = -9, vz = 0\<rparr> \<lparr>vx = 0, vy = 1, vz = 0\<rparr> 0)
          \<lparr>props := (props ?s)\<lparr>maxStretchRatio := 1.5\<rparr>\<rparr>
        = \<lparr>length_s = 1, props = defaultProps,
           handlePos = \<lparr>vx = 0, vy = -9, vz = 0\<rparr>, handleDir = \<lparr>vx = 0, vy = 1, vz = 0\<rparr>,
           tipPos = \<lparr>vx = 0, vy = -10.5, vz = 0\<rparr>,
           oldTipPos = \<lparr>vx = 0, vy = -10.5, vz = 0\<rparr>\<rparr>"
    unfolding c moved_handle_eval by simp
  from arg_cong [where f = tipPos, OF this] z show ?thesis by simp
qed

section \<open>The bend limit\<close>

text \<open>
  C2, as the claim states it, fails when the tip ends within \<open>0.0001\<close> of the handle: the
  bend constraint is skipped there (\<open>tipDist > 0.0001\<close>).  With \<open>maxBendAngle = 90\<close> the
  handle is moved to \<open>0.00005\<close> above the tip, pointing up: the tip stays where it is, straight
  below the handle, at the angle \<open>pi\<close> from the handle direction.
\<close>

theorem swing_bend_near_handle:
  "swing (constructor 1 (defaultProps\<lparr>maxBendAngle := Some 90\<rparr>))
      \<lparr>vx = 0, vy = 1.00005, vz = 0\<rparr> \<lparr>vx = 0, vy = 1, vz = 0\<rparr> 0
   = \<lparr>length_s = 1, props = defaultProps\<lparr>maxBendAngle := Some 90\<rparr>,
       handlePos = \<lparr>vx = 0, vy = 1.00005, vz = 0\<rparr>, handleDir = \<lparr>vx = 0, vy = 1, vz = 0\<rparr>,
       tipPos = \<lparr>vx = 0, vy = 1, vz = 0\<rparr>, oldTipPos = \<lparr>vx = 0, vy = 1, vz = 0\<rparr>\<rparr>
   \<and> angleOfCos (Vec3_dot
         (Vec3_normalize (Vec3_sub \<lparr>vx = 0, vy = 1, vz = 0\<rparr> \<lparr>vx = 0, vy = 1.00005, vz = 0\<rparr>))
         \<lparr>vx = 0, vy = 1, vz = 0\<rparr>) = pi
   \<and> 90 * (pi / 180) < pi"
  using near_handle_eval
  by (simp add: angleOfCos_def Vec3_dot_def Vec3_sub_def Vec3_normalize_axis_y)

text \<open>
  C2, amended.  Take a bend limit \<open>maxBendAngle\<close> below \<open>179.9\<close> degrees and of at least
  \<open>0.001\<close> radians, a \<open>maxStretchRatio\<close> that is not negative and a handle direction other
  than the zero vector.  For a positive active length the stretch clamp keeps the direction
  from the handle to the position it is given.  After a \<open>swing\<close> none of whose steps meets the
  bend constraint with the tip exactly opposite to the handle direction (where it divides by
  \<open>sinAngle = 0\<close>), and which leaves the tip farther than \<open>0.0001\<close> from the handle, the angle
  between the direction from the handle to the tip and the handle direction is at most
  \<open>maxBendAngle\<close>.  Nothing is said of a \<open>swing\<close> with such a step.
\<close>

theorem swing_max_bend:
  assumes dir: "hDir \<noteq> \<lparr>vx = 0, vy = 0, vz = 0\<rparr>"
    and a: "maxBendAngle (props s) = Some a" "a < 179.9" "0.001 \<le> a * (pi / 180)"
    and ratio: "0 \<le> maxStretchRatio (props s)"
    and regular: "\<not> swingSingular s hPos hDir dt"
    and far: "0.0001 < Vec3_distance (tipPos (swing s hPos hDir dt))
                                     (handlePos (swing s hPos hDir dt))"
  shows "(0 < activeLength \<longrightarrow>
            Vec3_normalize (Vec3_sub (stretchConstraint activeLength s nextPos) (handlePos s))
              = Vec3_normalize (Vec3_sub nextPos (handlePos s)))
       \<and> angleOfCos (Vec3_dot
             (Vec3_normalize (Vec3_sub (tipPos (swing s hPos hDir dt))
                                       (handlePos (swing s hPos hDir dt))))
             (handleDir (swing s hPos hDir dt)))
           \<le> a * (pi / 180)"
proof -
  let ?al = "length_s s * (1 - gripRatio (props s))"
  let ?s1 = "s\<lparr>handlePos := hPos, handleDir := Vec3_normalize hDir\<rparr>"
  let ?s2 = "subStepLoop 7 ?al (dt / 8) ?s1"
  have r: "0 < or_default (maxStretchRatio (props s)) 1.5"
    using ratio by (simp add: or_default_def)
  have nondegenerate: "0.1 \<le> ?al"
  proof (rule ccontr)
    assume "\<not> 0.1 \<le> ?al"
    then have "swing s hPos hDir dt = s\<lparr>handlePos := hPos, handleDir := Vec3_normalize hDir,
            tipPos := hPos, oldTipPos := hPos\<rparr>"
      by (simp add: swing_def Let_def or_default_def)
    then have "Vec3_distance (tipPos (swing s hPos hDir dt)) (handlePos (swing s hPos hDir dt)) = 0"
      by (simp add: Vec3_distance_def)
    with far show False by simp
  qed
  have "(0::real) < 0.1" by simp
  then have "0 < ?al" using nondegenerate by (rule less_le_trans)
  then have pos: "0 < ?al * or_default (maxStretchRatio (props s)) 1.5"
    using r by simp
  from nondegenerate have "swing s hPos hDir dt = subStepLoop (Suc 7) ?al (dt / 8) ?s1"
    by (simp add: swing_def Let_def or_default_def)
  then have sw: "swing s hPos hDir dt = performPhysicsStep ?al (dt / 8) ?s2"
    by (simp only: subStepLoop_last)
  from nondegenerate regular have "\<not> loopSingular (Suc 7) ?al (dt / 8) ?s1"
    by (simp add: swingSingular_def Let_def or_default_def)
  then have reg: "\<not> stepSingular ?al (dt / 8) ?s2"
    by (rule loopSingular_last)
  have fr: "props ?s2 = props s" "handleDir ?s2 = Vec3_normalize hDir" "handlePos ?s2 = hPos"
    using subStepLoop_frame[of 7 ?al "dt / 8" ?s1] by simp_all
  have unit: "Vec3_length (handleDir ?s2) = 1"
    using dir by (simp add: fr Vec3_length_normalize Vec3_length_zero_iff)
  have phi: "0 \<le> a * (pi / 180)" "a * (pi / 180) \<le> pi"
  proof -
    have "(0::real) \<le> 0.001" by simp
    then show "0 \<le> a * (pi / 180)" using a(3) by (rule order_trans)
    have "a * (pi / 180) \<le> 179.9 * (pi / 180)"
      using a(2) pi_gt_zero by (intro mult_right_mono) simp_all
    also have "\<dots> \<le> pi" using pi_gt_zero by simp
    finally show "a * (pi / 180) \<le> pi" .
  qed
  have far2: "0.0001 < Vec3_length (Vec3_sub (tipPos (performPhysicsStep ?al (dt / 8) ?s2))
                                              (handlePos ?s2))"
    using far by (simp add: sw performPhysicsStep_frame Vec3_distance_length)
  have "cos (a * (pi / 180))
          \<le> Vec3_dot (Vec3_normalize (Vec3_sub (tipPos (performPhysicsStep ?al (dt / 8) ?s2))
                                                (handlePos ?s2))) (handleDir ?s2)"
    using unit a pos reg far2
    by (intro performPhysicsStep_cone) (simp_all add: fr)
  then have "cos (a * (pi / 180))
          \<le> Vec3_dot (Vec3_normalize (Vec3_sub (tipPos (swing s hPos hDir dt))
                                       (handlePos (swing s hPos hDir dt))))
             (handleDir (swing s hPos hDir dt))"
    by (simp add: sw performPhysicsStep_frame)
  then have angle: "angleOfCos (Vec3_dot
             (Vec3_normalize (Vec3_sub (tipPos (swing s hPos hDir dt))
                                       (handlePos (swing s hPos hDir dt))))
             (handleDir (swing s hPos hDir dt))) \<le> a * (pi / 180)"
    using phi by (intro angleOfCos_le)
  have "Vec3_normalize (Vec3_sub (stretchConstraint activeLength s nextPos) (handlePos s))
              = Vec3_normalize (Vec3_sub nextPos (handlePos s))"
    if "0 < activeLength"
    using that r by (intro stretchConstraint_direction(1)) simp
  with angle show ?thesis by simp
qed

text \<open>
  The run of \<open>bendDemo\<close>: the bend constraint turns the tip from \<open>90\<close> degrees back onto
  the cone of \<open>45\<close> degrees.
\<close>

theorem swing_max_bend_witness:
  "maxBendAngle (props bendDemo) = Some 45
   \<and> \<not> swingSingular bendDemo \<lparr>vx = 0, vy = 0, vz = 0\<rparr> \<lparr>vx = 0, vy = 2, vz = 0\<rparr> 0
   \<and> bendConstraint bendDemo \<lparr>vx = 1, vy = 0, vz = 0\<rparr>
       = \<lparr>vx = sqrt 2 / 2, vy = sqrt 2 / 2, vz = 0\<rparr>
   \<and> tipPos (swing bendDemo \<lparr>vx = 0, vy = 0, vz = 0\<rparr> \<lparr>vx = 0, vy = 2, vz = 0\<rparr> 0)
       = \<lparr>vx = sqrt 2 / 2, vy = sqrt 2 / 2, vz = 0\<rparr>
   \<and> angleOfCos (Vec3_dot
         (Vec3_normalize (Vec3_sub
            (tipPos (swing bendDemo \<lparr>vx = 0, vy = 0, vz = 0\<rparr> \<lparr>vx = 0, vy = 2, vz = 0\<rparr> 0))
            (handlePos (swing bendDemo \<lparr>vx = 0, vy = 0, vz = 0\<rparr> \<lparr>vx = 0, vy = 2, vz = 0\<rparr> 0))))
         (handleDir (swing bendDemo \<lparr>vx = 0, vy = 0, vz = 0\<rparr> \<lparr>vx = 0, vy = 2, vz = 0\<rparr> 0)))
       \<le> 45 * (pi / 180)"
proof -
  let ?h = "\<lparr>vx = 0, vy = 0, vz = 0\<rparr>" and ?d = "\<lparr>vx = 0, vy = 2, vz = 0\<rparr>"
  have h1: "?d \<noteq> \<lparr>vx = 0, vy = 0, vz = 0\<rparr>" by simp
  have h2: "maxBendAngle (props bendDemo) = Some 45" by (simp add: bendDemo_def)
  have h3: "(45::real) < 179.9" by simp
  have h4: "0.001 \<le> 45 * (pi / 180)" using pi_ge_two by simp
  have h5: "0 \<le> maxStretchRatio (props bendDemo)"
    by (simp add: bendDemo_def defaultProps_def)
  have h7: "0.0001 < Vec3_distance (tipPos (swing bendDemo ?h ?d 0))
                                   (handlePos (swing bendDemo ?h ?d 0))"
    unfolding bendDemo_swing(1)
    by (simp add: bendDemoRest_def bendDemo_def Vec3_distance_def Let_def)
  from swing_max_bend [OF h1 h2 h3 h4 h5 bendDemo_swing(2) h7]
  have "angleOfCos (Vec3_dot
         (Vec3_normalize (Vec3_sub (tipPos (swing bendDemo ?h ?d 0))
            (handlePos (swing bendDemo ?h ?d 0))))
         (handleDir (swing bendDemo ?h ?d 0))) \<le> 45 * (pi / 180)"
    by simp
  moreover have "tipPos (swing bendDemo ?h ?d 0) = \<lparr>vx = sqrt 2 / 2, vy = sqrt 2 / 2, vz = 0\<rparr>"
    by (simp add: bendDemo_swing(1) bendDemoRest_def)
  ultimately show ?thesis
    using h2 bendDemo_swing(2) bendDemo_bend by simp
qed

section \<open>A swing of duration zero\<close>

text \<open>
  C3, as the claim states it, fails: with \<open>dt = 0\<close> the hard constraints still act and the
  implicit velocity still moves the tip.  Moving the handle of the stick at rest to
  \<open>(0, -9, 0)\<close> takes the tip from \<open>(0, 1, 0)\<close> to \<open>(0, -10.5, 0)\<close>.
\<close>

theorem swing_zero_dt_moves_tip:
  "tipPos (swing (constructor 1 defaultProps) \<lparr>vx = 0, vy = -9, vz = 0\<rparr> \<lparr>vx = 0, vy = 1, vz = 0\<rparr> 0)
     = \<lparr>vx = 0, vy = -10.5, vz = 0\<rparr>
   \<and> tipPos (constructor 1 defaultProps) = \<lparr>vx = 0, vy = 1, vz = 0\<rparr>"
  by (simp add: moved_handle_eval) (simp add: eval_defs)

text \<open>
  C3, amended.  A \<open>swing\<close> with \<open>dt = 0\<close> leaves the tip position and the previous tip
  position unchanged when the rod is not degenerate, the implicit velocity is zero
  (\<open>oldTipPos = tipPos\<close>), and the tip is inside the bend cone of the supplied pose and within
  the maximal stretch length of the supplied handle position.
\<close>

theorem swing_zero_dt:
  assumes nondegenerate: "0.1 \<le> length_s s * (1 - gripRatio (props s))"
    and rest: "oldTipPos s = tipPos s"
    and bend: "withinBendLimit (s\<lparr>handlePos := hPos, handleDir := Vec3_normalize hDir\<rparr>) (tipPos s)"
    and stretch: "Vec3_distance (tipPos s) hPos
       \<le> length_s s * (1 - gripRatio (props s)) * or_default (maxStretchRatio (props s)) 1.5"
  shows "swing s hPos hDir 0 = s\<lparr>handlePos := hPos, handleDir := Vec3_normalize hDir\<rparr>"
proof -
  let ?s1 = "s\<lparr>handlePos := hPos, handleDir := Vec3_normalize hDir\<rparr>"
  have "subStepLoop 8 (length_s s * (1 - gripRatio (props s))) 0 ?s1 = ?s1"
    using rest bend stretch by (intro subStepLoop_zero_dt_fixed) simp_all
  with nondegenerate show ?thesis
    by (simp add: swing_def Let_def or_default_def)
qed

text \<open>
  The stick at rest with \<open>maxBendAngle = 90\<close>, swung with its own pose.
\<close>

theorem swing_zero_dt_witness:
  "swing (constructor 1 (defaultProps\<lparr>maxBendAngle := Some 90\<rparr>))
      \<lparr>vx = 0, vy = 0, vz = 0\<rparr> \<lparr>vx = 0, vy = 2, vz = 0\<rparr> 0
   = constructor 1 (defaultProps\<lparr>maxBendAngle := Some 90\<rparr>)"
  using swing_zero_dt [where s = "constructor 1 (defaultProps\<lparr>maxBendAngle := Some 90\<rparr>)"
      and hPos = "\<lparr>vx = 0, vy = 0, vz = 0\<rparr>" and hDir = "\<lparr>vx = 0, vy = 2, vz = 0\<rparr>"]
  by (simp add: constructor_def reset_def defaultProps_def Let_def withinBendLimit_def
      Vec3_distance_def Vec3_dot_def Vec3_add_def Vec3_sub_def Vec3_scale_def Vec3_create_def
      Vec3_normalize_axis_y or_default_def)

section \<open>The curve query at its boundaries\<close>

text \<open>
  C6, as the claim states it, fails on a degenerate rod: the query returns the handle position
  for every parameter of the blade when \<open>activeLength \<le> 0.1\<close>, while the tip of a stick just
  constructed with length \<open>1\<close> and \<open>gripRatio = 0.95\<close> is at \<open>(0, 0.05, 0)\<close>.
\<close>

theorem query_tip_degenerate:
  "queryPNormalize (constructor 1 (defaultProps\<lparr>gripRatio := 0.95\<rparr>)) 1
     = \<lparr>vx = 0, vy = 0, vz = 0\<rparr>
   \<and> tipPos (constructor 1 (defaultProps\<lparr>gripRatio := 0.95\<rparr>)) = \<lparr>vx = 0, vy = 0.05, vz = 0\<rparr>"
  by (simp add: queryPNormalize_def constructor_def reset_def defaultProps_def Let_def
      or_default_def Vec3_add_def Vec3_scale_def Vec3_create_def)

text \<open>
  C6, amended.  \<open>queryPNormalize 1\<close> is the tip position when \<open>gripRatio < 1\<close> and
  \<open>activeLength > 0.1\<close>; \<open>queryPNormalize gripRatio\<close> is the handle position when
  \<open>gripRatio > 0\<close>; \<open>queryPNormalize 0\<close> is the handle position when \<open>gripRatio = 0\<close>.
\<close>

theorem query_boundaries:
  "(gripRatio (props s) < 1 \<longrightarrow> 0.1 < length_s s * (1 - gripRatio (props s))
       \<longrightarrow> queryPNormalize s 1 = tipPos s)
   \<and> (0 < gripRatio (props s) \<longrightarrow> queryPNormalize s (gripRatio (props s)) = handlePos s)
   \<and> (gripRatio (props s) = 0 \<longrightarrow> queryPNormalize s 0 = handlePos s)"
proof (intro conjI impI)
  assume g: "gripRatio (props s) < 1" and al: "0.1 < length_s s * (1 - gripRatio (props s))"
  then show "queryPNormalize s 1 = tipPos s"
    by (cases "tipPos s")
      (simp add: queryPNormalize_def Let_def or_default_def Vec3_add_def Vec3_scale_def)
next
  assume "0 < gripRatio (props s)"
  then show "queryPNormalize s (gripRatio (props s)) = handlePos s"
    by (cases "handlePos s")
      (simp add: queryPNormalize_def Let_def or_default_def Vec3_add_def Vec3_scale_def)
next
  assume "gripRatio (props s) = 0"
  then show "queryPNormalize s 0 = handlePos s"
    by (cases "handlePos s")
      (simp add: queryPNormalize_def Let_def or_default_def Vec3_add_def Vec3_scale_def)
qed

text \<open>
  The stick of length \<open>2\<close> with \<open>gripRatio = 0.5\<close>, and the stick of length \<open>1\<close> with
  \<open>gripRatio = 0\<close>.
\<close>

theorem query_boundaries_witness:
  "gripRatio (props (constructor 2 (defaultProps\<lparr>gripRatio := 0.5\<rparr>))) < 1
   \<and> 0.1 < length_s (constructor 2 (defaultProps\<lparr>gripRatio := 0.5\<rparr>))
             * (1 - gripRatio (props (constructor 2 (defaultProps\<lparr>gripRatio := 0.5\<rparr>))))
   \<and> queryPNormalize (constructor 2 (defaultProps\<lparr>gripRatio := 0.5\<rparr>)) 1
       = \<lparr>vx = 0, vy = 1, vz = 0\<rparr>
   \<and> queryPNormalize (constructor 2 (defaultProps\<lparr>gripRatio := 0.5\<rparr>)) 0.5
       = \<lparr>vx = 0, vy = 0, vz = 0\<rparr>
   \<and> gripRatio (props (constructor 1 defaultProps)) = 0
   \<and> queryPNormalize (constructor 1 defaultProps) 0 = \<lparr>vx = 0, vy = 0, vz = 0\<rparr>"
  using query_boundaries [of "constructor 2 (defaultProps\<lparr>gripRatio := 0.5\<rparr>)"]
    query_boundaries [of "constructor 1 defaultProps"]
  by (simp add: constructor_def reset_def defaultProps_def Let_def
      or_default_def Vec3_add_def Vec3_scale_def Vec3_create_def)

end
